theory Spec2Isabelle
  imports Complex_Main
begin

section \<open>Python strings and lists\<close>

text \<open>
  Python strings are modelled as \<^typ>\<open>string\<close>, one \<^typ>\<open>char\<close> per code point of the
  ASCII range. \<^verbatim>\<open>xs[:n]\<close>: a non-negative bound keeps the first \<open>n\<close> elements (all of
  them when the list is shorter), a negative bound counts from the end.
\<close>

definition py_take :: "int \<Rightarrow> 'a list \<Rightarrow> 'a list" where
  "py_take n xs =
     (if 0 \<le> n then take (nat n) xs else take (nat (int (length xs) + n)) xs)"

definition upper_letters :: string where
  "upper_letters = ''ABCDEFGHIJKLMNOPQRSTUVWXYZ''"

definition lower_letters :: string where
  "lower_letters = ''abcdefghijklmnopqrstuvwxyz''"

text \<open>\<^verbatim>\<open>str.lower()\<close> on ASCII letters.\<close>

definition lower_char :: "char \<Rightarrow> char" where
  "lower_char c =
     (case map_of (zip upper_letters lower_letters) c of Some d \<Rightarrow> d | None \<Rightarrow> c)"

definition lower :: "string \<Rightarrow> string" where
  "lower s = map lower_char s"

text \<open>The ASCII characters that \<^verbatim>\<open>str.split()\<close> treats as whitespace.\<close>

definition is_space :: "char \<Rightarrow> bool" where
  "is_space c = (c \<in> set [CHR '' '', CHR 0x09, CHR 0x0A, CHR 0x0B, CHR 0x0C, CHR 0x0D,
                              CHR 0x1C, CHR 0x1D, CHR 0x1E, CHR 0x1F])"

text \<open>
  \<^verbatim>\<open>str.split()\<close> without argument: the maximal runs of non-whitespace characters, in
  order; never an empty word.
\<close>

fun split_acc :: "string \<Rightarrow> string \<Rightarrow> string list" where
  "split_acc cur [] = (if cur = [] then [] else [cur])"
| "split_acc cur (c # cs) =
     (if is_space c then (if cur = [] then split_acc [] cs else cur # split_acc [] cs)
      else split_acc (cur @ [c]) cs)"

definition split :: "string \<Rightarrow> string list" where
  "split s = split_acc [] s"

text \<open>\<^verbatim>\<open>needle in haystack\<close> on strings: substring test.\<close>

fun starts_with :: "string \<Rightarrow> string \<Rightarrow> bool" where
  "starts_with [] s = True"
| "starts_with (p # ps) [] = False"
| "starts_with (p # ps) (c # cs) = (p = c \<and> starts_with ps cs)"

fun py_in :: "string \<Rightarrow> string \<Rightarrow> bool" where
  "py_in needle [] = (needle = [])"
| "py_in needle (c # cs) = (starts_with needle (c # cs) \<or> py_in needle cs)"

text \<open>\<^verbatim>\<open>sep.join(xs)\<close>.\<close>

fun py_join :: "string \<Rightarrow> string list \<Rightarrow> string" where
  "py_join sep [] = []"
| "py_join sep [w] = w"
| "py_join sep (w # ws) = w @ sep @ py_join sep ws"

text \<open>\<^verbatim>\<open>s.split(sep)\<close> with a one-character separator: empty pieces are kept.\<close>

fun split_on_acc :: "char \<Rightarrow> string \<Rightarrow> string \<Rightarrow> string list" where
  "split_on_acc sep cur [] = [cur]"
| "split_on_acc sep cur (c # cs) =
     (if c = sep then cur # split_on_acc sep [] cs else split_on_acc sep (cur @ [c]) cs)"

definition split_on :: "char \<Rightarrow> string \<Rightarrow> string list" where
  "split_on sep s = split_on_acc sep [] s"

text \<open>
  \<^verbatim>\<open>s.replace(old, new)\<close>: the occurrences of \<open>old\<close> are replaced from left to right
  without overlap; an empty \<open>old\<close> matches before every character and at the end.
\<close>

function py_replace :: "string \<Rightarrow> string \<Rightarrow> string \<Rightarrow> string" where
  "py_replace [] new s = new @ concat (map (\<lambda>c. c # new) s)"
| "py_replace (p # ps) new [] = []"
| "py_replace (p # ps) new (c # cs) =
     (if starts_with (p # ps) (c # cs)
      then new @ py_replace (p # ps) new (drop (length ps) cs)
      else c # py_replace (p # ps) new cs)"
  by pat_completeness auto
termination
  by (relation "measure (\<lambda>(old, new, s). length s)") auto

text \<open>
  \<^verbatim>\<open>str.title()\<close> on ASCII: a letter that follows a letter is lower-cased, any other
  letter is upper-cased, other characters are kept.
\<close>

definition upper_char :: "char \<Rightarrow> char" where
  "upper_char c =
     (case map_of (zip lower_letters upper_letters) c of Some d \<Rightarrow> d | None \<Rightarrow> c)"

definition is_alpha :: "char \<Rightarrow> bool" where
  "is_alpha c = (c \<in> set upper_letters \<or> c \<in> set lower_letters)"

fun title_acc :: "bool \<Rightarrow> string \<Rightarrow> string" where
  "title_acc previous_is_cased [] = []"
| "title_acc previous_is_cased (c # cs) =
     (if is_alpha c
      then (if previous_is_cased then lower_char c else upper_char c) # title_acc True cs
      else c # title_acc False cs)"

definition py_title :: "string \<Rightarrow> string" where
  "py_title s = title_acc False s"

text \<open>\<^verbatim>\<open>str(n)\<close> for a natural number.\<close>

function str_nat :: "nat \<Rightarrow> string" where
  "str_nat n =
     (if n < 10 then [''0123456789'' ! n]
      else str_nat (n div 10) @ [''0123456789'' ! (n mod 10)])"
  by pat_completeness auto
termination
  by (relation "measure id") auto

declare str_nat.simps [simp del]

definition nl :: string where
  "nl = [CHR 0x0A]"

text \<open>\<^verbatim>\<open>str.strip()\<close>: whitespace removed at both ends.\<close>

definition py_strip :: "string \<Rightarrow> string" where
  "py_strip s = rev (dropWhile is_space (rev (dropWhile is_space s)))"

definition bslash :: string where
  "bslash = [CHR 0x5C]"

section \<open>QueryPlanner\<close>

text \<open>
  \<^verbatim>\<open>QueryPlanner._fallback_decomposition\<close>: six fixed phrasings with the query
  substituted, cut to the first \<open>num_questions\<close>.
\<close>

definition base_aspects :: "string \<Rightarrow> string list" where
  "base_aspects user_query =
     [ ''What is '' @ user_query @ '' and how does it work?'',
       ''What are the current applications and use cases of '' @ user_query @ ''?'',
       ''What are the advantages and benefits of '' @ user_query @ ''?'',
       ''What are the challenges and limitations of '' @ user_query @ ''?'',
       ''What are the recent developments in '' @ user_query @ ''?'',
       ''What is the market outlook for '' @ user_query @ ''?'' ]"

definition fallback_decomposition :: "string \<Rightarrow> int \<Rightarrow> string list" where
  "fallback_decomposition user_query num_questions =
     py_take num_questions (base_aspects user_query)"

text \<open>
  \<^verbatim>\<open>QueryPlanner.generate_focused_sub_questions\<close>: the generation service is an
  external call; its outcome is a parameter. \<open>None\<close> stands for any exception raised
  inside the \<^verbatim>\<open>try\<close> block (network or parse), \<open>Some qs\<close> for the list the
  parsing produced before the final slice.
\<close>

definition generate_focused_sub_questions ::
  "string list option \<Rightarrow> string \<Rightarrow> int \<Rightarrow> string list" where
  "generate_focused_sub_questions service user_query num_questions =
     (case service of
        Some qs \<Rightarrow> py_take num_questions qs
      | None \<Rightarrow> fallback_decomposition user_query num_questions)"

section \<open>WebScout\<close>

text \<open>
  A source dictionary. The first five fields are the keys \<^verbatim>\<open>_serper_search\<close> writes;
  the others are added later by extraction, ranking and quality assessment and are read with
  \<^verbatim>\<open>.get(key, default)\<close>: an absent key is modelled by its default (empty string,
  \<open>False\<close>, \<open>0\<close>).
\<close>

record source =
  title :: string
  url :: string
  snippet :: string
  query :: string
  search_position :: nat
  extracted_content :: string
  content_length :: nat
  extraction_success :: bool
  relevance_score :: real
  quality_score :: real

text \<open>The dictionary \<^verbatim>\<open>_serper_search\<close> builds for one organic result.\<close>

definition search_result :: "string \<Rightarrow> string \<Rightarrow> string \<Rightarrow> string \<Rightarrow> nat \<Rightarrow> source" where
  "search_result t u sn q pos =
     \<lparr>title = t, url = u, snippet = sn, query = q, search_position = pos,
      extracted_content = [], content_length = 0, extraction_success = False,
      relevance_score = 0, quality_score = 0\<rparr>"

text \<open>
  \<^verbatim>\<open>WebScout._remove_duplicates\<close>: one pass with the set of lower-cased URLs seen so
  far; a result with an empty URL is skipped.
\<close>

fun remove_duplicates_loop ::
  "string set \<Rightarrow> source list \<Rightarrow> source list \<Rightarrow> source list" where
  "remove_duplicates_loop seen_urls unique_results [] = unique_results"
| "remove_duplicates_loop seen_urls unique_results (result # results) =
     (let u = lower (url result) in
      if u \<noteq> [] \<and> u \<notin> seen_urls
      then remove_duplicates_loop (insert u seen_urls) (unique_results @ [result]) results
      else remove_duplicates_loop seen_urls unique_results results)"

definition remove_duplicates :: "source list \<Rightarrow> source list" where
  "remove_duplicates results = remove_duplicates_loop {} [] results"

text \<open>
  \<^verbatim>\<open>WebScout._calculate_relevance_score\<close>. The word sets are
  \<^verbatim>\<open>set(w.strip() for w in text.split() if len(w.strip()) > 2)\<close>; after \<^verbatim>\<open>split()\<close>
  the \<^verbatim>\<open>strip()\<close> changes nothing. Python's floats are modelled as reals.
\<close>

definition significant_words :: "string \<Rightarrow> string set" where
  "significant_words s = set (filter (\<lambda>w. 2 < length w) (split s))"

definition trusted_domain :: "string \<Rightarrow> bool" where
  "trusted_domain u = (\<exists>d \<in> set [''edu'', ''org'', ''gov'']. py_in d u)"

definition calculate_relevance_score :: "string \<Rightarrow> source \<Rightarrow> real" where
  "calculate_relevance_score q s =
     (let title' = lower (title s);
          snippet' = lower (snippet s);
          content = lower (extracted_content s);
          url' = lower (url s);
          query_words = significant_words (lower q)
      in if query_words = {} then 0
         else
           let title_overlap = card (query_words \<inter> significant_words title');
               title_score = (real title_overlap / real (card query_words)) * 0.30;
               content_overlap = card (query_words \<inter> significant_words content);
               content_score = (real content_overlap / real (card query_words)) * 0.40;
               snippet_overlap = card (query_words \<inter> significant_words snippet');
               snippet_score = (real snippet_overlap / real (card query_words)) * 0.20;
               quality_score = (if extraction_success s then 0.05 else 0)
                             + (if trusted_domain url' then 0.05 else 0);
               total_score = title_score + content_score + snippet_score + quality_score
           in min total_score 1)"

text \<open>
  The external world of the scout. The search API is consulted with the number of
  calls made before and the cleaned query; \<open>None\<close> is any exception inside
  \<^verbatim>\<open>_serper_search\<close>'s \<^verbatim>\<open>try\<close> (transport, status, JSON), \<open>Some items\<close> the
  \<^verbatim>\<open>organic\<close> list of the response (empty when the key is absent). An item field is
  \<open>None\<close> when its key is absent.
\<close>

record item =
  item_title :: "string option"
  item_link :: "string option"
  item_snippet :: "string option"

type_synonym serper_api = "nat \<Rightarrow> string \<Rightarrow> item list option"

text \<open>Fetching a URL: \<open>Some text\<close> is the cleaned page text, \<open>None\<close> any exception.\<close>

type_synonym fetcher = "string \<Rightarrow> string option"

definition min_sources_per_query :: nat where "min_sources_per_query = 5"
definition target_sources_per_query :: nat where "target_sources_per_query = 3"

text \<open>The query cleaning at the head of \<^verbatim>\<open>_serper_search\<close>.\<close>

definition clean_query :: "string \<Rightarrow> string" where
  "clean_query q =
     (let q1 = (if 12 < length (split q) then py_join '' '' (take 12 (split q)) else q)
      in filter (\<lambda>c. c \<noteq> CHR 0x22 \<and> c \<noteq> CHR ''('' \<and> c \<noteq> CHR '')'') q1)"

fun organic_results :: "string \<Rightarrow> source list \<Rightarrow> item list \<Rightarrow> source list" where
  "organic_results q results [] = results"
| "organic_results q results (it # items) =
     organic_results q
       (results @ [search_result
          (case item_title it of Some t \<Rightarrow> t | None \<Rightarrow> ''No title'')
          (case item_link it of Some l \<Rightarrow> l | None \<Rightarrow> [])
          (case item_snippet it of Some s \<Rightarrow> s | None \<Rightarrow> ''No snippet'')
          q (length results + 1)])
       items"

text \<open>
  \<^verbatim>\<open>WebScout._serper_search\<close>, with the list of the queries sent so far threaded
  through: every call sends one request, whatever its outcome.
\<close>

definition serper_search ::
  "serper_api \<Rightarrow> string list \<Rightarrow> string \<Rightarrow> source list \<times> string list" where
  "serper_search api sent q =
     (let q' = clean_query q in
      (case api (length sent) q' of
         Some items \<Rightarrow> organic_results q' [] items
       | None \<Rightarrow> [],
       sent @ [q']))"

text \<open>
  \<^verbatim>\<open>WebScout._extract_content_parallel\<close>. The worker never raises: a failed fetch
  falls back to the snippet. Results are collected in completion order in the source;
  the model keeps submission order.
\<close>

definition extract_single_url :: "fetcher \<Rightarrow> source \<Rightarrow> source option" where
  "extract_single_url fetch result =
     (if url result = [] then None
      else case fetch (url result) of
        Some cleaned_content \<Rightarrow>
          Some (result\<lparr>extracted_content := take 1200 cleaned_content,
                        content_length := length cleaned_content,
                        extraction_success := True\<rparr>)
      | None \<Rightarrow>
          Some (result\<lparr>extracted_content := snippet result,
                        content_length := length (snippet result),
                        extraction_success := False\<rparr>))"

definition extract_content_parallel :: "fetcher \<Rightarrow> source list \<Rightarrow> source list" where
  "extract_content_parallel fetch results = List.map_filter (extract_single_url fetch) results"

definition deep_search_with_extraction ::
  "serper_api \<Rightarrow> fetcher \<Rightarrow> string list \<Rightarrow> string \<Rightarrow> source list \<times> string list" where
  "deep_search_with_extraction api fetch sent q =
     (let (direct_results, sent1) = serper_search api sent q;
          (expanded_results, sent2) = serper_search api sent1 (q @ '' guide examples'');
          all_results = direct_results @ expanded_results;
          unique_results = remove_duplicates all_results
      in (extract_content_parallel fetch unique_results, sent2))"

definition deeper_terms :: "string \<Rightarrow> string list" where
  "deeper_terms q =
     [q @ '' research analysis'', q @ '' technical details'', q @ '' case studies examples'']"

fun search_deeper_loop ::
  "serper_api \<Rightarrow> int \<Rightarrow> string list \<Rightarrow> source list \<Rightarrow> string list
     \<Rightarrow> source list \<times> string list" where
  "search_deeper_loop api needed sent deeper_results [] = (deeper_results, sent)"
| "search_deeper_loop api needed sent deeper_results (term # terms) =
     (if needed \<le> int (length deeper_results) then (deeper_results, sent)
      else let (results, sent') = serper_search api sent term
           in search_deeper_loop api needed sent' (deeper_results @ take 3 results) terms)"

definition search_deeper ::
  "serper_api \<Rightarrow> string list \<Rightarrow> string \<Rightarrow> nat \<Rightarrow> source list \<times> string list" where
  "search_deeper api sent q current_count =
     (let needed = int min_sources_per_query - int current_count;
          (deeper_results, sent') = search_deeper_loop api needed sent [] (deeper_terms q)
      in (py_take needed deeper_results, sent'))"

text \<open>
  \<^verbatim>\<open>WebScout._rank_by_relevance\<close>: \<^verbatim>\<open>sorted(..., reverse=True)\<close> is stable, as is
  \<^const>\<open>sort_key\<close> on the negated score.
\<close>

definition rank_by_relevance :: "string \<Rightarrow> source list \<Rightarrow> source list" where
  "rank_by_relevance q sources =
     sort_key (\<lambda>s. - relevance_score s)
       (map (\<lambda>s. s\<lparr>relevance_score := calculate_relevance_score q s\<rparr>) sources)"

text \<open>The body of the \<^verbatim>\<open>try\<close> in \<^verbatim>\<open>deep_search_all_questions\<close> for one question.\<close>

definition question_sources ::
  "serper_api \<Rightarrow> fetcher \<Rightarrow> string list \<Rightarrow> string \<Rightarrow> source list \<times> string list" where
  "question_sources api fetch sent question =
     (let (question_sources, sent1) = deep_search_with_extraction api fetch sent question;
          (question_sources', sent2) =
             (if length question_sources < min_sources_per_query
              then let (additional_sources, l) =
                         search_deeper api sent1 question (length question_sources)
                   in (question_sources @ additional_sources, l)
              else (question_sources, sent1));
          ranked_sources = rank_by_relevance question question_sources';
          final_sources = take target_sources_per_query ranked_sources
      in (final_sources, sent2))"

text \<open>
  \<^verbatim>\<open>WebScout.deep_search_all_questions\<close>. On typed data the body above does not raise;
  an exception in it comes from outside (a payload field of the wrong type, a failure
  of the runtime). \<open>fault i = Some e\<close> says that \<open>e\<close> is raised while the body runs for
  the \<open>i\<close>-th question (counted from 1, as \<^verbatim>\<open>enumerate\<close> does); the handler then stores
  the empty list. Searches sent before the exception are not recorded.
\<close>

fun deep_search_loop ::
  "serper_api \<Rightarrow> fetcher \<Rightarrow> (nat \<Rightarrow> string option) \<Rightarrow> nat \<Rightarrow> (string \<rightharpoonup> source list)
     \<Rightarrow> string list \<Rightarrow> string list \<Rightarrow> (string \<rightharpoonup> source list) \<times> string list" where
  "deep_search_loop api fetch fault i all_sources_data sent [] = (all_sources_data, sent)"
| "deep_search_loop api fetch fault i all_sources_data sent (question # questions) =
     (case fault i of
        Some e \<Rightarrow>
          deep_search_loop api fetch fault (Suc i) (all_sources_data(question \<mapsto> [])) sent
            questions
      | None \<Rightarrow>
          let (final_sources, sent') = question_sources api fetch sent question
          in deep_search_loop api fetch fault (Suc i)
               (all_sources_data(question \<mapsto> final_sources)) sent' questions)"

definition deep_search_all_questions ::
  "serper_api \<Rightarrow> fetcher \<Rightarrow> (nat \<Rightarrow> string option) \<Rightarrow> string list
     \<Rightarrow> (string \<rightharpoonup> source list) \<times> string list" where
  "deep_search_all_questions api fetch fault sub_questions =
     deep_search_loop api fetch fault 1 Map.empty [] sub_questions"

text \<open>
  A concrete world for examples: every search returns the same single organic result
  (without a snippet), and every page fetch fails.
\<close>

definition demo_api :: serper_api where
  "demo_api n q =
     Some [\<lparr>item_title = Some ''Title'', item_link = Some ''http://a.org/x'',
            item_snippet = None\<rparr>]"

definition demo_fetch :: fetcher where
  "demo_fetch u = None"

definition fault_at :: "nat \<Rightarrow> nat \<Rightarrow> string option" where
  "fault_at k i = (if i = k then Some ''boom'' else None)"

section \<open>InformationAnalyst\<close>

text \<open>
  Exceptions of the analyst that its own code does not catch where they arise.
\<close>

datatype py_error = KeyError string

text \<open>\<^verbatim>\<open>str(e)\<close> of a \<^verbatim>\<open>KeyError\<close>: the key in quotes.\<close>

fun str_error :: "py_error \<Rightarrow> string" where
  "str_error (KeyError k) = [CHR 0x27] @ k @ [CHR 0x27]"

text \<open>
  A fact as the extraction call returns it (\<^verbatim>\<open>fact\<close>, \<^verbatim>\<open>relevance\<close>,
  \<^verbatim>\<open>confidence\<close>), with the two keys \<^verbatim>\<open>_ai_extract_information\<close> adds. The
  generation service decides which keys a fact has: the \<^verbatim>\<open>fact\<close> key may be absent
  (\<open>None\<close>), and it is read with \<^verbatim>\<open>f['fact']\<close>, which then raises; an absent
  confidence is read as 0 (\<^verbatim>\<open>f.get('confidence', 0)\<close>). The value of a key that is
  present has the type the prompt asks for.
\<close>

record fact =
  fact_statement :: "string option"
  fact_relevance :: string
  fact_confidence :: real
  fact_source_url :: string
  fact_source_title :: string

record source_metadata =
  meta_url :: string
  meta_title :: string
  meta_quality_score :: real
  meta_relevance_score :: real

text \<open>
  A non-empty extraction dictionary: either key may be absent (\<open>None\<close>), which is what
  \<^verbatim>\<open>_synthesize_information\<close> tests with \<^verbatim>\<open>in\<close>.
\<close>

record extraction =
  key_information :: "fact list option"
  extraction_source_metadata :: "source_metadata option"

record key_point =
  point :: string
  supporting_sources :: "string list"
  point_confidence :: real

text \<open>
  The answer dictionary of one sub-question. The keys \<^verbatim>\<open>completeness_score\<close> and
  \<^verbatim>\<open>sources_count\<close> are absent (\<open>None\<close>) on some paths; \<^verbatim>\<open>key_points\<close> is read with the
  default \<open>[]\<close>.
\<close>

record answer =
  answer_text :: string
  key_points :: "key_point list"
  source_urls :: "string list"
  confidence_score :: real
  completeness_score :: "real option"
  sources_count :: "nat option"

text \<open>
  The generation service. For extraction, \<open>None\<close> is any exception inside the
  \<^verbatim>\<open>try\<close> of \<^verbatim>\<open>_ai_extract_information\<close> (timeout, transport, unparsable JSON);
  \<open>Some ki\<close> is the parsed object, \<open>ki\<close> its \<^verbatim>\<open>key_information\<close> list if it has one.
  For synthesis, \<open>None\<close> is any exception inside the \<^verbatim>\<open>try\<close> of
  \<^verbatim>\<open>_synthesize_information\<close>; the fields of a parsed result are read with the
  defaults of the source.
\<close>

type_synonym extraction_service = "string \<Rightarrow> source \<Rightarrow> fact list option option"

record synthesis_result =
  synthesized_answer :: string
  synthesis_key_points :: "key_point list"
  overall_confidence :: real
  information_completeness :: real

text \<open>\<^verbatim>\<open>InformationAnalyst._assess_source_quality\<close>.\<close>

definition source_quality :: "source \<Rightarrow> real" where
  "source_quality s =
     (let content_length = length (extracted_content s) in
      (if 500 \<le> content_length then 0.3
       else if 200 \<le> content_length then 0.2
       else if 100 \<le> content_length then 0.1 else 0)
      + min (relevance_score s * 0.4) 0.4
      + (if extraction_success s then 0.2 else 0)
      + (if trusted_domain (lower (url s)) then 0.1 else 0))"

definition assess_source_quality :: "source list \<Rightarrow> source list" where
  "assess_source_quality sources =
     (let scored = map (\<lambda>s. s\<lparr>quality_score := source_quality s\<rparr>) sources;
          quality_sources =
            filter (\<lambda>s. 100 \<le> length (extracted_content s) \<and> 0.2 \<le> relevance_score s) scored
      in take 3 (sort_key (\<lambda>s. - quality_score s) quality_sources))"

text \<open>
  \<^verbatim>\<open>InformationAnalyst._ai_extract_information\<close>: \<open>None\<close> is the empty dictionary
  returned by the exception handler.
\<close>

definition ai_extract_information ::
  "extraction_service \<Rightarrow> string \<Rightarrow> source \<Rightarrow> extraction option" where
  "ai_extract_information svc sub_question s =
     (case svc sub_question s of
        None \<Rightarrow> None
      | Some ki \<Rightarrow>
          Some \<lparr>key_information =
                   map_option (map (\<lambda>f. f\<lparr>fact_source_url := url s,
                                                fact_source_title := title s\<rparr>)) ki,
                 extraction_source_metadata =
                   Some \<lparr>meta_url = url s, meta_title = title s,
                          meta_quality_score = quality_score s,
                          meta_relevance_score = relevance_score s\<rparr>\<rparr>)"

text \<open>
  \<^verbatim>\<open>InformationAnalyst._extract_information_from_sources\<close>: a source with less than
  50 characters of content is skipped; an extraction is kept when it is a non-empty
  dictionary with a non-empty \<^verbatim>\<open>key_information\<close>.
\<close>

fun extract_information_from_sources ::
  "extraction_service \<Rightarrow> source list \<Rightarrow> string \<Rightarrow> extraction list" where
  "extract_information_from_sources svc [] sub_question = []"
| "extract_information_from_sources svc (s # sources) sub_question =
     (if length (extracted_content s) < 50
      then extract_information_from_sources svc sources sub_question
      else case ai_extract_information svc sub_question s of
             None \<Rightarrow> extract_information_from_sources svc sources sub_question
           | Some e \<Rightarrow>
               (case key_information e of
                  Some (f # fs) \<Rightarrow> e # extract_information_from_sources svc sources sub_question
                | _ \<Rightarrow> extract_information_from_sources svc sources sub_question))"

text \<open>
  The comprehension \<^verbatim>\<open>[f['fact'] for f in facts]\<close>: it raises \<^verbatim>\<open>KeyError\<close> at
  the first fact without that key.
\<close>

fun fact_texts :: "fact list \<Rightarrow> py_error + string list" where
  "fact_texts [] = Inr []"
| "fact_texts (f # fs) =
     (case fact_statement f of
        None \<Rightarrow> Inl (KeyError ''fact'')
      | Some t \<Rightarrow>
          (case fact_texts fs of
             Inl e \<Rightarrow> Inl e
           | Inr ts \<Rightarrow> Inr (t # ts)))"

text \<open>
  \<^verbatim>\<open>InformationAnalyst._fallback_synthesis\<close>. It runs inside the exception handler
  of \<^verbatim>\<open>_synthesize_information\<close>, so an exception raised here leaves that method.
\<close>

definition fallback_synthesis ::
  "fact list \<Rightarrow> source_metadata list \<Rightarrow> string \<Rightarrow> py_error + answer" where
  "fallback_synthesis all_facts all_sources sub_question =
     (if all_facts = []
      then Inr \<lparr>answer_text = ''Unable to find sufficient information for: '' @ sub_question,
                 key_points = [], source_urls = [], confidence_score = 0.0,
                 completeness_score = None, sources_count = None\<rparr>
      else
        let high_conf_facts = filter (\<lambda>f. 0.7 \<le> fact_confidence f) all_facts
        in case (if high_conf_facts \<noteq> []
                 then fact_texts (take 3 high_conf_facts)
                 else fact_texts (take 3 all_facts)) of
             Inl e \<Rightarrow> Inl e
           | Inr texts \<Rightarrow>
               Inr \<lparr>answer_text = py_join ''. '' texts, key_points = [],
                     source_urls = map meta_url (filter (\<lambda>s. meta_url s \<noteq> []) all_sources),
                     confidence_score = 0.6, completeness_score = None,
                     sources_count = Some (length all_sources)\<rparr>)"

text \<open>\<^verbatim>\<open>InformationAnalyst._synthesize_information\<close>.\<close>

definition all_facts_of :: "extraction list \<Rightarrow> fact list" where
  "all_facts_of extractions =
     concat (map (\<lambda>e. case key_information e of Some fs \<Rightarrow> fs | None \<Rightarrow> []) extractions)"

definition all_sources_of :: "extraction list \<Rightarrow> source_metadata list" where
  "all_sources_of extractions = List.map_filter extraction_source_metadata extractions"

definition synthesize_information ::
  "synthesis_result option \<Rightarrow> extraction list \<Rightarrow> string \<Rightarrow> py_error + answer" where
  "synthesize_information svc extractions sub_question =
     (if extractions = []
      then Inr \<lparr>answer_text = ''No sufficient information found for: '' @ sub_question,
                 key_points = [], source_urls = [], confidence_score = 0.0,
                 completeness_score = None, sources_count = None\<rparr>
      else
        let all_facts = all_facts_of extractions;
            all_sources = all_sources_of extractions
        in case svc of
             Some synthesis_result \<Rightarrow>
               Inr \<lparr>answer_text = synthesized_answer synthesis_result,
                    key_points = synthesis_key_points synthesis_result,
                    source_urls = map meta_url (filter (\<lambda>s. meta_url s \<noteq> []) all_sources),
                    confidence_score = overall_confidence synthesis_result,
                    completeness_score = Some (information_completeness synthesis_result),
                    sources_count = Some (length all_sources)\<rparr>
           | None \<Rightarrow> fallback_synthesis all_facts all_sources sub_question)"

text \<open>
  The per-question body of the \<^verbatim>\<open>try\<close> in \<^verbatim>\<open>analyze_and_synthesize\<close>: quality
  filter, extraction from each retained source, synthesis.
\<close>

definition question_answer ::
  "extraction_service \<Rightarrow> synthesis_result option \<Rightarrow> source list \<Rightarrow> string
     \<Rightarrow> py_error + answer" where
  "question_answer ext_svc syn_svc sources sub_question =
     (let quality_sources = assess_source_quality sources;
          source_extractions =
            extract_information_from_sources ext_svc quality_sources sub_question
      in synthesize_information syn_svc source_extractions sub_question)"

text \<open>
  The answer \<^verbatim>\<open>analyze_and_synthesize\<close> stores for one sub-question: the result of
  the body, or the answer its exception handler builds.
\<close>

definition stored_answer ::
  "extraction_service \<Rightarrow> synthesis_result option \<Rightarrow> source list \<Rightarrow> string \<Rightarrow> answer" where
  "stored_answer ext_svc syn_svc sources sub_question =
     (case question_answer ext_svc syn_svc sources sub_question of
        Inr a \<Rightarrow> a
      | Inl e \<Rightarrow>
          \<lparr>answer_text = ''Analysis failed: '' @ str_error e, key_points = [],
           source_urls = [], confidence_score = 0.0, completeness_score = None,
           sources_count = None\<rparr>)"



section \<open>ReportWriter\<close>

text \<open>\<^verbatim>\<open>ReportWriter._generate_source_title_from_url\<close>.\<close>

definition domain_titles :: "(string \<times> string) list" where
  "domain_titles =
     [(''arxiv.org'', ''ArXiv Research Paper''),
      (''github.com'', ''GitHub Repository''),
      (''stackoverflow.com'', ''Stack Overflow''),
      (''medium.com'', ''Medium Article''),
      (''towardsdatascience.com'', ''Towards Data Science''),
      (''pytorch.org'', ''PyTorch Documentation''),
      (''tensorflow.org'', ''TensorFlow Documentation''),
      (''wikipedia.org'', ''Wikipedia''),
      (''nature.com'', ''Nature Journal''),
      (''sciencedirect.com'', ''ScienceDirect'')]"

text \<open>
  \<^verbatim>\<open>url.split('/')[2]\<close> raises \<^verbatim>\<open>IndexError\<close> when the URL has fewer than two
  slashes; the bare \<^verbatim>\<open>except\<close> turns that into the title \<^verbatim>\<open>Source\<close>.
\<close>

definition generate_source_title_from_url :: "string \<Rightarrow> string" where
  "generate_source_title_from_url u =
     (if u = [] then ''Source''
      else case split_on (CHR ''/'') u of
        p0 # p1 # p2 # rest \<Rightarrow>
          (let domain = py_replace ''www.'' [] p2 in
           case find (\<lambda>(known_domain, t). py_in known_domain domain) domain_titles of
             Some (known_domain, t) \<Rightarrow> t
           | None \<Rightarrow>
               py_title (py_replace ''.edu'' [] (py_replace ''.org'' []
                 (py_replace ''.com'' [] domain))))
      | _ \<Rightarrow> ''Source'')"

record citation_entry =
  entry_title :: string
  entry_url :: string
  question_context :: string

text \<open>
  \<^verbatim>\<open>ReportWriter._build_source_citation_map\<close>. Both dictionaries keep insertion
  order, so they are association lists: the answers in iteration order, the citation
  map in the order the URLs were first seen.
\<close>

type_synonym citation_map = "(string \<times> citation_entry) list"

fun add_source_urls :: "citation_map \<Rightarrow> string \<Rightarrow> string list \<Rightarrow> citation_map" where
  "add_source_urls citation_map question [] = citation_map"
| "add_source_urls citation_map question (u # urls) =
     (if u \<notin> fst ` set citation_map
      then add_source_urls
             (citation_map @
                [(u, \<lparr>entry_title = generate_source_title_from_url u, entry_url = u,
                       question_context = question\<rparr>)])
             question urls
      else add_source_urls citation_map question urls)"

fun build_citation_loop :: "citation_map \<Rightarrow> (string \<times> answer) list \<Rightarrow> citation_map" where
  "build_citation_loop citation_map [] = citation_map"
| "build_citation_loop citation_map ((question, answer_data) # rest) =
     build_citation_loop (add_source_urls citation_map question (source_urls answer_data)) rest"

definition build_source_citation_map :: "(string \<times> answer) list \<Rightarrow> citation_map" where
  "build_source_citation_map sub_question_answers = build_citation_loop [] sub_question_answers"

text \<open>
  The origin of a URL as the specification words it: the first answer, in iteration
  order, whose source URLs contain it.
\<close>

fun first_origin :: "(string \<times> answer) list \<Rightarrow> string \<Rightarrow> string option" where
  "first_origin [] u = None"
| "first_origin ((question, answer_data) # rest) u =
     (if u \<in> set (source_urls answer_data) then Some question else first_origin rest u)"

definition demo_answer :: "string list \<Rightarrow> answer" where
  "demo_answer urls =
     \<lparr>answer_text = ''a'', key_points = [], source_urls = urls, confidence_score = 0.6,
      completeness_score = None, sources_count = None\<rparr>"

text \<open>The result of the analyst, as far as the writer reads it.\<close>

record insights =
  insights_key_insights :: "string list"
  insights_thematic_connections :: "(string \<times> string list) list"
  insights_knowledge_synthesis :: string

record analysis_results =
  sub_question_answers :: "(string \<times> answer) list"
  synthesized_insights :: insights
  total_sources_analyzed :: nat

text \<open>
  The metadata dictionary of a report. The fallback report has only the timestamp, the
  topic, the fallback flag, the word count and the citation count; the other keys are
  then absent (\<open>None\<close>), and \<^verbatim>\<open>fallback_mode\<close> is absent (\<open>False\<close>) on a regular report.
\<close>

record report_metadata =
  generation_timestamp :: string
  meta_user_topic :: string
  word_count :: nat
  citation_count :: nat
  section_count :: "nat option"
  sources_analyzed :: "nat option"
  report_quality_score :: "real option"
  sub_questions_covered :: "nat option"
  fallback_mode :: bool

record report =
  markdown_report :: string
  metadata :: report_metadata
  source_citation_map :: "citation_map option"

text \<open>
  What the writer takes from outside. \<open>draft\<close> is the outcome of
  \<^verbatim>\<open>_generate_markdown_report\<close>: \<open>Inr text\<close> the stripped response of the generation
  service, \<open>Inl e\<close> an exception, which that method prints and raises again. The clock
  gives the two timestamps. The regular-expression library is a parameter: \<open>re_sub\<close>
  is \<^verbatim>\<open>re.sub(pattern, repl, text)\<close> and \<open>re_count\<close> the length of
  \<^verbatim>\<open>re.findall(pattern, text)\<close>, with the \<^verbatim>\<open>MULTILINE\<close> flag as a boolean.
\<close>

record writer_env =
  draft :: "string + string"
  now_stamp :: string
  now_iso :: string
  re_sub :: "string \<Rightarrow> string \<Rightarrow> string \<Rightarrow> string"
  re_count :: "string \<Rightarrow> bool \<Rightarrow> string \<Rightarrow> nat"

definition citation_pattern :: string where
  "citation_pattern =
     bslash @ ''[([^'' @ bslash @ '']]+)'' @ bslash @ '']'' @ bslash @ ''(([^)]+)'' @ bslash @ '')''"

text \<open>\<^verbatim>\<open>ReportWriter._ensure_markdown_formatting\<close>.\<close>

definition ensure_markdown_formatting :: "writer_env \<Rightarrow> string \<Rightarrow> string" where
  "ensure_markdown_formatting env report =
     (let formatted = report;
          formatted = re_sub env (bslash @ ''n(#{1,6})'') (bslash @ ''n'' @ bslash @ ''n'' @ bslash @ ''1'')
                        formatted;
          formatted = re_sub env (''(#{1,6}.*?)'' @ bslash @ ''n([^'' @ bslash @ ''n#])'')
                        (bslash @ ''1'' @ bslash @ ''n'' @ bslash @ ''n'' @ bslash @ ''2'') formatted;
          formatted = re_sub env (bslash @ ''n('' @ bslash @ ''s*[-*+])'')
                        (bslash @ ''n'' @ bslash @ ''n'' @ bslash @ ''1'') formatted;
          formatted = re_sub env (bslash @ ''n{3,}'') (nl @ nl) formatted
      in py_strip formatted)"

text \<open>\<^verbatim>\<open>ReportWriter._add_report_header\<close>.\<close>

definition add_report_header :: "writer_env \<Rightarrow> string \<Rightarrow> string" where
  "add_report_header env report =
     ''---'' @ nl @
     ''Generated: '' @ now_stamp env @ nl @
     ''Generator: Enhanced AI Research Engine'' @ nl @
     ''Format: Evidence-Backed Research Report'' @ nl @
     ''---'' @ nl @ nl @ report"

text \<open>\<^verbatim>\<open>ReportWriter._validate_and_format_report\<close> (the citation count is only printed).\<close>

definition validate_and_format_report :: "writer_env \<Rightarrow> string \<Rightarrow> citation_map \<Rightarrow> string" where
  "validate_and_format_report env markdown citations =
     add_report_header env (ensure_markdown_formatting env markdown)"

text \<open>\<^verbatim>\<open>ReportWriter._generate_report_metadata\<close>.\<close>

definition generate_report_metadata ::
  "writer_env \<Rightarrow> string \<Rightarrow> string \<Rightarrow> analysis_results \<Rightarrow> report_metadata" where
  "generate_report_metadata env user_topic report analysis =
     (let words = length (split report);
          citations = re_count env citation_pattern False report;
          sections = re_count env ''^#+'' True report
      in \<lparr>generation_timestamp = now_iso env,
          meta_user_topic = user_topic,
          word_count = words,
          citation_count = citations,
          section_count = Some sections,
          sources_analyzed = Some (total_sources_analyzed analysis),
          report_quality_score = Some (min (real citations * 0.1) 1.0),
          sub_questions_covered = Some (length (sub_question_answers analysis)),
          fallback_mode = False\<rparr>)"

text \<open>\<^verbatim>\<open>ReportWriter._generate_fallback_report\<close>.\<close>

definition fallback_report_text :: "writer_env \<Rightarrow> string \<Rightarrow> analysis_results \<Rightarrow> string" where
  "fallback_report_text env user_topic analysis =
     ''---'' @ nl @
     ''Generated: '' @ now_stamp env @ nl @
     ''Generator: Enhanced AI Research Engine (Fallback Mode)'' @ nl @
     ''---'' @ nl @ nl @
     ''# '' @ user_topic @ nl @ nl @
     ''## Report Generation Notice'' @ nl @ nl @
     ''This report was generated in fallback mode due to technical issues.'' @ nl @ nl @
     ''## Research Summary'' @ nl @ nl @
     ''Research was completed with '' @ str_nat (length (sub_question_answers analysis))
        @ '' sub-questions analyzed.'' @ nl @ nl @
     ''## Recommendations'' @ nl @ nl @
     ''For complete analysis:'' @ nl @
     ''1. Review saved research data'' @ nl @
     ''2. Re-run report generation'' @ nl"

definition generate_fallback_report :: "writer_env \<Rightarrow> string \<Rightarrow> analysis_results \<Rightarrow> report" where
  "generate_fallback_report env user_topic analysis =
     (let fallback_report = fallback_report_text env user_topic analysis
      in \<lparr>markdown_report = fallback_report,
          metadata =
            \<lparr>generation_timestamp = now_iso env,
             meta_user_topic = user_topic,
             word_count = length (split fallback_report),
             citation_count = 0,
             section_count = None, sources_analyzed = None, report_quality_score = None,
             sub_questions_covered = None,
             fallback_mode = True\<rparr>,
          source_citation_map = None\<rparr>)"

text \<open>
  \<^verbatim>\<open>ReportWriter.generate_comprehensive_report\<close>. The citation map is built before
  the \<^verbatim>\<open>try\<close>; drafting, validation and metadata are inside it, and the handler
  returns the fallback report.
\<close>

definition generate_comprehensive_report ::
  "writer_env \<Rightarrow> string \<Rightarrow> analysis_results \<Rightarrow> report" where
  "generate_comprehensive_report env user_topic analysis =
     (let citations = build_source_citation_map (sub_question_answers analysis)
      in case draft env of
           Inr markdown \<Rightarrow>
             (let validated_report = validate_and_format_report env markdown citations;
                  report_metadata = generate_report_metadata env user_topic validated_report analysis
              in \<lparr>markdown_report = validated_report,
                  metadata = report_metadata,
                  source_citation_map = Some citations\<rparr>)
         | Inl e \<Rightarrow> generate_fallback_report env user_topic analysis)"

definition demo_writer_env :: "string + string \<Rightarrow> writer_env" where
  "demo_writer_env d =
     \<lparr>draft = d, now_stamp = ''2025-01-01 00:00:00'', now_iso = ''2025-01-01T00:00:00'',
      re_sub = (\<lambda>pattern repl text. text), re_count = (\<lambda>pattern multiline text. 0)\<rparr>"

definition demo_analysis :: analysis_results where
  "demo_analysis =
     \<lparr>sub_question_answers = [(''q1'', demo_answer [''http://a.com/1''])],
      synthesized_insights =
        \<lparr>insights_key_insights = [], insights_thematic_connections = [],
         insights_knowledge_synthesis = []\<rparr>,
      total_sources_analyzed = 1\<rparr>"

section \<open>EnhancedResearchEngine\<close>

datatype phase = Planning | Scouting | Analyzing | Writing

text \<open>
  The four agents as the orchestrator sees them: each call returns its output
  (\<open>Inr\<close>) or raises an exception, of which \<open>Inl e\<close> keeps the message \<^verbatim>\<open>str(e)\<close>.
  The clock gives the start time, the end time and the duration in seconds.
\<close>

record pipeline =
  planner :: "string \<Rightarrow> int \<Rightarrow> string + string list"
  scout :: "string list \<Rightarrow> string + (string \<rightharpoonup> source list)"
  analyst :: "(string \<rightharpoonup> source list) \<Rightarrow> string + analysis_results"
  writer :: "string \<Rightarrow> analysis_results \<Rightarrow> string + report"
  clock_start :: string
  clock_end :: string
  clock_duration :: real

text \<open>
  The \<^verbatim>\<open>research_context\<close> dictionary: the keys written by a phase are absent
  (\<open>None\<close>) until that phase has returned.
\<close>

record research_context =
  ctx_user_query :: string
  ctx_start_time :: string
  ctx_agents_used :: "string list"
  ctx_sub_questions :: "string list option"
  ctx_sources_data :: "(string \<rightharpoonup> source list) option"
  ctx_analysis_results :: "analysis_results option"
  ctx_report_results :: "report option"
  ctx_end_time :: "string option"
  ctx_duration :: "real option"

text \<open>
  The dictionary returned by \<^verbatim>\<open>comprehensive_research\<close>: on success it has no
  \<^verbatim>\<open>error\<close> key, on failure it has only \<^verbatim>\<open>success\<close>, \<^verbatim>\<open>error\<close> and
  \<^verbatim>\<open>research_context\<close>.
\<close>

record research_result =
  success :: bool
  error :: "string option"
  result_context :: research_context
  result_markdown_report :: "string option"
  result_metadata :: "report_metadata option"
  result_source_citation_map :: "citation_map option"
  result_analysis_results :: "analysis_results option"

definition initial_context :: "pipeline \<Rightarrow> string \<Rightarrow> research_context" where
  "initial_context env user_query =
     \<lparr>ctx_user_query = user_query, ctx_start_time = clock_start env,
      ctx_agents_used = [''planner'', ''scout'', ''analyst'', ''writer''],
      ctx_sub_questions = None, ctx_sources_data = None, ctx_analysis_results = None,
      ctx_report_results = None, ctx_end_time = None, ctx_duration = None\<rparr>"

text \<open>The dictionary built by the exception handler.\<close>

definition failure_result :: "string \<Rightarrow> research_context \<Rightarrow> research_result" where
  "failure_result e ctx =
     \<lparr>success = False, error = Some e, result_context = ctx,
      result_markdown_report = None, result_metadata = None,
      result_source_citation_map = None, result_analysis_results = None\<rparr>"

text \<open>
  \<^verbatim>\<open>EnhancedResearchEngine.comprehensive_research\<close>. The second component lists the
  phases that were started, in order (the source prints a banner when it enters one).
\<close>

definition comprehensive_research ::
  "pipeline \<Rightarrow> string \<Rightarrow> int \<Rightarrow> research_result \<times> phase list" where
  "comprehensive_research env user_query num_sub_questions =
     (let ctx0 = initial_context env user_query in
      case planner env user_query num_sub_questions of
        Inl e \<Rightarrow> (failure_result e ctx0, [Planning])
      | Inr sub_questions \<Rightarrow>
     (let ctx1 = ctx0\<lparr>ctx_sub_questions := Some sub_questions\<rparr> in
      case scout env sub_questions of
        Inl e \<Rightarrow> (failure_result e ctx1, [Planning, Scouting])
      | Inr sources_data \<Rightarrow>
     (let ctx2 = ctx1\<lparr>ctx_sources_data := Some sources_data\<rparr> in
      case analyst env sources_data of
        Inl e \<Rightarrow> (failure_result e ctx2, [Planning, Scouting, Analyzing])
      | Inr analysis \<Rightarrow>
     (let ctx3 = ctx2\<lparr>ctx_analysis_results := Some analysis\<rparr> in
      case writer env user_query analysis of
        Inl e \<Rightarrow> (failure_result e ctx3, [Planning, Scouting, Analyzing, Writing])
      | Inr report_results \<Rightarrow>
     (let ctx4 = ctx3\<lparr>ctx_report_results := Some report_results,
                       ctx_end_time := Some (clock_end env),
                       ctx_duration := Some (clock_duration env)\<rparr>
      in (\<lparr>success = True, error = None, result_context = ctx4,
           result_markdown_report = Some (markdown_report report_results),
           result_metadata = Some (metadata report_results),
           result_source_citation_map =
             Some (case source_citation_map report_results of Some m \<Rightarrow> m | None \<Rightarrow> []),
           result_analysis_results = Some analysis\<rparr>,
          [Planning, Scouting, Analyzing, Writing]))))))"

text \<open>A pipeline whose analyst raises, for examples.\<close>

definition demo_pipeline :: pipeline where
  "demo_pipeline =
     \<lparr>planner = (\<lambda>q n. Inr (fallback_decomposition q n)),
      scout = (\<lambda>qs. Inr (fst (deep_search_all_questions demo_api demo_fetch (fault_at 0) qs))),
      analyst = (\<lambda>sources. Inl ''analysis exploded''),
      writer = (\<lambda>topic analysis. Inr (generate_comprehensive_report
                   (demo_writer_env (Inl ''timeout'')) topic analysis)),
      clock_start = ''t0'', clock_end = ''t1'', clock_duration = 1\<rparr>"

section \<open>AgentCollaborationManager\<close>

text \<open>
  The per-persona results, a dictionary from the persona id to its result, in insertion
  order. Of a result only \<^verbatim>\<open>key_insights\<close> is read here (default: the empty list).
\<close>

record agent_result =
  key_insights :: "string list"

record cross_reference =
  agent1 :: string
  agent2 :: string
  insight1 :: string
  insight2 :: string
  similarity :: real

text \<open>\<^verbatim>\<open>AgentCollaborationManager._calculate_text_similarity\<close>.\<close>

definition calculate_text_similarity :: "string \<Rightarrow> string \<Rightarrow> real" where
  "calculate_text_similarity text1 text2 =
     (let words1 = set (split (lower text1));
          words2 = set (split (lower text2));
          intersection = words1 \<inter> words2;
          union = words1 \<union> words2
      in if union \<noteq> {} then real (card intersection) / real (card union) else 0)"

text \<open>
  The pairs \<open>(agents[i], agents[j])\<close> with \<open>i < j\<close>, in the order of the two nested
  loops of \<^verbatim>\<open>_find_cross_references\<close>.
\<close>

fun agent_pairs :: "'a list \<Rightarrow> ('a \<times> 'a) list" where
  "agent_pairs [] = []"
| "agent_pairs (a # as) = map (Pair a) as @ agent_pairs as"

definition insight_matches ::
  "string \<times> agent_result \<Rightarrow> string \<times> agent_result \<Rightarrow> cross_reference list" where
  "insight_matches a b =
     concat (map (\<lambda>i1. concat (map (\<lambda>i2.
        (let sim = calculate_text_similarity i1 i2 in
         if 0.3 < sim
         then [\<lparr>agent1 = fst a, agent2 = fst b, insight1 = i1, insight2 = i2,
                 similarity = sim\<rparr>]
         else []))
        (key_insights (snd b))))
        (key_insights (snd a)))"

definition all_cross_references :: "(string \<times> agent_result) list \<Rightarrow> cross_reference list" where
  "all_cross_references agent_results =
     concat (map (\<lambda>(a, b). insight_matches a b) (agent_pairs agent_results))"



section \<open>Properties of the string helpers\<close>

lemmas lower_unfold = lower_def lower_char_def upper_letters_def lower_letters_def





section \<open>Planner fallback\<close>

lemma length_base_aspects: "length (base_aspects q) = 6"
  by (simp add: base_aspects_def)

text \<open>
  C2 (as stated, refuted): with a failing generation service and a target count of 7
  the planner returns 6 sub-questions, not 7.
\<close>

theorem C2_exactly_N_counterexample:
  "length (generate_focused_sub_questions None ''x'' 7) \<noteq> 7"
  by (simp add: generate_focused_sub_questions_def fallback_decomposition_def
      py_take_def length_base_aspects)

text \<open>
  C2 (amended): with a failing generation service and a target count \<open>N \<ge> 1\<close> the
  planner returns the first \<open>min N 6\<close> of the six fixed templates instantiated with
  the query; the result is a function of the query and \<open>N\<close> alone.
\<close>

theorem C2_fallback_templates:
  assumes "1 \<le> N"
  shows "generate_focused_sub_questions None q N = take (nat N) (base_aspects q)
       \<and> length (generate_focused_sub_questions None q N) = min (nat N) 6"
  using assms
  by (simp add: generate_focused_sub_questions_def fallback_decomposition_def
      py_take_def length_base_aspects)

theorem C2_fallback_templates_witness:
  "(1::int) \<le> 2
   \<and> generate_focused_sub_questions None ''AI'' 2 =
       [''What is AI and how does it work?'',
        ''What are the current applications and use cases of AI?'']
   \<and> length (generate_focused_sub_questions None ''AI'' 2) = 2"
  using C2_fallback_templates [of 2 "''AI''"]
  by (simp add: base_aspects_def)

section \<open>Scout: deduplication\<close>

lemma remove_duplicates_loop_acc:
  "remove_duplicates_loop seen acc rs = acc @ remove_duplicates_loop seen [] rs"
proof (induction rs arbitrary: seen acc)
  case Nil
  show ?case by simp
next
  case (Cons r rs)
  show ?case
    using Cons.IH [of "insert (lower (url r)) seen" "acc @ [r]"]
          Cons.IH [of "insert (lower (url r)) seen" "[r]"]
          Cons.IH [of seen acc]
    by (simp add: Let_def)
qed

lemma remove_duplicates_loop_Cons:
  "remove_duplicates_loop seen [] (r # rs) =
     (if lower (url r) \<noteq> [] \<and> lower (url r) \<notin> seen
      then r # remove_duplicates_loop (insert (lower (url r)) seen) [] rs
      else remove_duplicates_loop seen [] rs)"
  using remove_duplicates_loop_acc [of "insert (lower (url r)) seen" "[r]" rs]
  by (simp add: Let_def)

declare remove_duplicates_loop.simps(2) [simp del]

lemma remove_duplicates_loop_keys:
  "set (map (\<lambda>r. lower (url r)) (remove_duplicates_loop seen [] rs))
     = (\<lambda>r. lower (url r)) ` set rs - {[]} - seen"
  by (induction rs arbitrary: seen) (auto simp: remove_duplicates_loop_Cons)

lemma remove_duplicates_loop_distinct:
  "distinct (map (\<lambda>r. lower (url r)) (remove_duplicates_loop seen [] rs))"
proof (induction rs arbitrary: seen)
  case Nil
  show ?case by simp
next
  case (Cons r rs)
  have "lower (url r) \<notin> set (map (\<lambda>r. lower (url r))
          (remove_duplicates_loop (insert (lower (url r)) seen) [] rs))"
    unfolding remove_duplicates_loop_keys by simp
  with Cons.IH show ?case
    by (simp add: remove_duplicates_loop_Cons del: set_map)
qed

lemma remove_duplicates_loop_first:
  "lower (url r) \<noteq> [] \<Longrightarrow> lower (url r) \<notin> seen \<Longrightarrow>
   lower (url r) \<notin> (\<lambda>r. lower (url r)) ` set xs \<Longrightarrow>
   r \<in> set (remove_duplicates_loop seen [] (xs @ r # ys))"
proof (induction xs arbitrary: seen)
  case Nil
  then show ?case by (simp add: remove_duplicates_loop_Cons)
next
  case (Cons x xs)
  then show ?case by (simp add: remove_duplicates_loop_Cons)
qed

lemma remove_duplicates_loop_sub:
  "set (remove_duplicates_loop seen [] rs) \<subseteq> set rs"
  by (induction rs arbitrary: seen) (auto simp: remove_duplicates_loop_Cons)

lemma length_remove_duplicates_le: "length (remove_duplicates rs) \<le> length rs"
proof -
  have "length (remove_duplicates_loop seen [] rs) \<le> length rs" for seen
    by (induction rs arbitrary: seen) (auto simp: remove_duplicates_loop_Cons le_SucI)
  then show ?thesis by (simp add: remove_duplicates_def)
qed

text \<open>
  C3 (as stated, refuted): two results whose URLs differ only in the protocol
  (\<^verbatim>\<open>http\<close> against \<^verbatim>\<open>https\<close>) are one URL with a protocol variant, so the claim
  promises one entry; the deduplication keeps both.
\<close>

theorem C3_protocol_variant_counterexample:
  "length (remove_duplicates
     [search_result ''A'' ''http://a.com/x'' ''s'' ''q'' 1,
      search_result ''A'' ''https://a.com/x'' ''s'' ''q'' 2]) \<noteq> 1"
  by (simp add: remove_duplicates_def remove_duplicates_loop_Cons search_result_def
      lower_unfold)

text \<open>
  C3 (amended): URLs are compared after lower-casing only. The deduplication returns
  exactly one entry for each distinct non-empty lower-cased URL of the input (results
  with an empty URL are dropped), every entry is an input result, and the first
  occurrence of each such URL is kept.
\<close>

theorem C3_dedup_case_insensitive:
  "distinct (map (\<lambda>r. lower (url r)) (remove_duplicates rs))
   \<and> length (remove_duplicates rs) = card ((\<lambda>r. lower (url r)) ` set rs - {[]})
   \<and> set (remove_duplicates rs) \<subseteq> set rs
   \<and> (\<forall>xs r ys. rs = xs @ r # ys \<and> lower (url r) \<noteq> []
          \<and> lower (url r) \<notin> (\<lambda>r. lower (url r)) ` set xs
        \<longrightarrow> r \<in> set (remove_duplicates rs))"
proof -
  let ?k = "\<lambda>r. lower (url r)"
  have d: "distinct (map ?k (remove_duplicates rs))"
    unfolding remove_duplicates_def by (rule remove_duplicates_loop_distinct)
  have "length (remove_duplicates rs) = length (map ?k (remove_duplicates rs))" by simp
  also have "\<dots> = card (set (map ?k (remove_duplicates rs)))"
    using d by (rule distinct_card [symmetric])
  also have "\<dots> = card (?k ` set rs - {[]})"
    unfolding remove_duplicates_def remove_duplicates_loop_keys by simp
  finally have l: "length (remove_duplicates rs) = card (?k ` set rs - {[]})" .
  have s: "set (remove_duplicates rs) \<subseteq> set rs"
    unfolding remove_duplicates_def by (rule remove_duplicates_loop_sub)
  have f: "\<forall>xs r ys. rs = xs @ r # ys \<and> ?k r \<noteq> [] \<and> ?k r \<notin> ?k ` set xs
        \<longrightarrow> r \<in> set (remove_duplicates rs)"
    unfolding remove_duplicates_def by (auto intro: remove_duplicates_loop_first)
  from d l s f show ?thesis by blast
qed

theorem C3_dedup_case_insensitive_witness:
  "[search_result ''A'' ''http://A.com'' ''s'' ''q'' 3,
    search_result ''B'' ''HTTP://a.com'' ''s'' ''q'' 4]
   = [] @ search_result ''A'' ''http://A.com'' ''s'' ''q'' 3 #
       [search_result ''B'' ''HTTP://a.com'' ''s'' ''q'' 4]
   \<and> lower (url (search_result ''A'' ''http://A.com'' ''s'' ''q'' 3)) \<noteq> []
   \<and> lower (url (search_result ''A'' ''http://A.com'' ''s'' ''q'' 3))
        \<notin> (\<lambda>r. lower (url r)) ` set []
   \<and> search_result ''A'' ''http://A.com'' ''s'' ''q'' 3
        \<in> set (remove_duplicates
             [search_result ''A'' ''http://A.com'' ''s'' ''q'' 3,
              search_result ''B'' ''HTTP://a.com'' ''s'' ''q'' 4])
   \<and> length (remove_duplicates
             [search_result ''A'' ''http://A.com'' ''s'' ''q'' 3,
              search_result ''B'' ''HTTP://a.com'' ''s'' ''q'' 4]) = 1"
proof -
  let ?a = "search_result ''A'' ''http://A.com'' ''s'' ''q'' 3"
  let ?b = "search_result ''B'' ''HTTP://a.com'' ''s'' ''q'' 4"
  have k: "lower (url ?a) = ''http://a.com''" "lower (url ?b) = ''http://a.com''"
    by (simp_all add: search_result_def lower_unfold)
  have h: "[?a, ?b] = [] @ ?a # [?b] \<and> lower (url ?a) \<noteq> []
         \<and> lower (url ?a) \<notin> (\<lambda>r. lower (url r)) ` set []"
    by (simp add: k)
  from C3_dedup_case_insensitive [of "[?a, ?b]"]
  have "?a \<in> set (remove_duplicates [?a, ?b])"
    and "length (remove_duplicates [?a, ?b])
           = card ((\<lambda>r. lower (url r)) ` set [?a, ?b] - {[]})"
    using h by blast+
  then show ?thesis using h by (simp add: k)
qed

section \<open>Scout: relevance score\<close>



section \<open>Scout: gathering sources\<close>




lemma length_rank_by_relevance: "length (rank_by_relevance q xs) = length xs"
  by (simp add: rank_by_relevance_def)





lemma deep_search_loop_other:
  "q \<notin> set qs \<Longrightarrow> fst (deep_search_loop api fetch fault i data sent qs) q = data q"
  by (induction qs arbitrary: i data sent) (auto simp: split_beta Let_def split: option.splits)

lemma deep_search_loop_dom:
  "dom (fst (deep_search_loop api fetch fault i data sent qs)) = dom data \<union> set qs"
  by (induction qs arbitrary: i data sent) (auto simp: split_beta Let_def split: option.splits)

lemma deep_search_loop_fault:
  "j < length qs \<Longrightarrow> qs ! j \<notin> set (drop (Suc j) qs) \<Longrightarrow> fault (i + j) = Some e \<Longrightarrow>
   fst (deep_search_loop api fetch fault i data sent qs) (qs ! j) = Some []"
proof (induction qs arbitrary: i j data sent)
  case Nil
  then show ?case by simp
next
  case (Cons q qs)
  show ?case
  proof (cases j)
    case 0
    with Cons.prems show ?thesis
      by (simp add: deep_search_loop_other)
  next
    case (Suc j')
    with Cons.prems have "j' < length qs" "qs ! j' \<notin> set (drop (Suc j') qs)"
      "fault (Suc i + j') = Some e" by simp_all
    from Cons.IH [OF this] Suc show ?thesis
      by (simp add: split_beta Let_def split: option.splits)
  qed
qed

lemmas scout_unfold =
  deep_search_all_questions_def question_sources_def deep_search_with_extraction_def
  serper_search_def remove_duplicates_def remove_duplicates_loop_Cons search_result_def
  extract_content_parallel_def extract_single_url_def List.map_filter_def
  min_sources_per_query_def target_sources_per_query_def search_deeper_def deeper_terms_def
  rank_by_relevance_def Let_def py_take_def demo_api_def demo_fetch_def fault_at_def





text \<open>
  C10 (as stated, refuted): the planner's list may name a sub-question twice. When the
  processing of its first occurrence raises and that of the second one succeeds, the
  key holds the sources of the second run, not the empty list.
\<close>

theorem C10_duplicate_question_counterexample:
  "fault_at 1 1 \<noteq> None
   \<and> fst (deep_search_all_questions demo_api demo_fetch (fault_at 1) [''q'', ''q'']) ''q''
       \<noteq> Some []"
  by (simp add: scout_unfold lower_unfold)

text \<open>
  C10 (amended): the gathered map has exactly the input sub-questions as keys and the
  call always returns; a sub-question whose last occurrence in the list raised during
  processing is bound to the empty list.
\<close>

theorem C10_gather_keys:
  "dom (fst (deep_search_all_questions api fetch fault qs)) = set qs
   \<and> (\<forall>i < length qs. qs ! i \<notin> set (drop (Suc i) qs) \<and> fault (Suc i) \<noteq> None
        \<longrightarrow> fst (deep_search_all_questions api fetch fault qs) (qs ! i) = Some [])"
proof -
  have d: "dom (fst (deep_search_all_questions api fetch fault qs)) = set qs"
    unfolding deep_search_all_questions_def deep_search_loop_dom by simp
  have f: "\<forall>i < length qs. qs ! i \<notin> set (drop (Suc i) qs) \<and> fault (Suc i) \<noteq> None
        \<longrightarrow> fst (deep_search_all_questions api fetch fault qs) (qs ! i) = Some []"
    unfolding deep_search_all_questions_def
    using deep_search_loop_fault [of _ qs fault 1] by auto
  from d f show ?thesis by blast
qed

theorem C10_gather_keys_witness:
  "dom (fst (deep_search_all_questions demo_api demo_fetch (fault_at 2) [''a'', ''b'']))
     = {''a'', ''b''}
   \<and> fst (deep_search_all_questions demo_api demo_fetch (fault_at 2) [''a'', ''b'']) ''b''
       = Some []"
proof -
  note inst = C10_gather_keys [of demo_api demo_fetch "fault_at 2" "[''a'', ''b'']"]
  have h: "(1::nat) < length [''a'', ''b''] \<and> [''a'', ''b''] ! 1 \<notin> set (drop (Suc 1) [''a'', ''b''])
         \<and> fault_at 2 (Suc 1) \<noteq> None"
    by (simp add: fault_at_def)
  with inst have "fst (deep_search_all_questions demo_api demo_fetch (fault_at 2) [''a'', ''b''])
                   ([''a'', ''b''] ! 1) = Some []"
    by blast
  with inst show ?thesis by auto
qed

section \<open>Analyst: fallback synthesis\<close>




text \<open>
  A fact without the \<^verbatim>\<open>fact\<close> key among those selected makes the fallback raise; the
  caller then stores its "analysis failed" answer.
\<close>

lemma fallback_synthesis_missing_fact_key:
  "synthesize_information None
     [\<lparr>key_information =
         Some [\<lparr>fact_statement = None, fact_relevance = ''r'', fact_confidence = 0.9,
                 fact_source_url = ''u'', fact_source_title = ''t''\<rparr>],
       extraction_source_metadata = None\<rparr>] ''q''
   = Inl (KeyError ''fact'')"
  by (simp add: synthesize_information_def fallback_synthesis_def all_facts_of_def Let_def)




section \<open>Writer: citation map\<close>

lemma add_source_urls_lookup:
  "map_of (add_source_urls cm q urls) u =
     (case map_of cm u of
        Some e \<Rightarrow> Some e
      | None \<Rightarrow> if u \<in> set urls
                then Some \<lparr>entry_title = generate_source_title_from_url u, entry_url = u,
                            question_context = q\<rparr>
                else None)"
proof (induction urls arbitrary: cm)
  case Nil
  show ?case by (simp split: option.splits)
next
  case (Cons x urls)
  show ?case
  proof (cases "x \<in> fst ` set cm")
    case True
    then have "map_of cm x \<noteq> None" by (simp add: map_of_eq_None_iff)
    with True show ?thesis
      using Cons.IH [of cm] by (auto split: option.splits)
  next
    case False
    then have n: "map_of cm x = None" by (simp add: map_of_eq_None_iff)
    let ?e = "\<lparr>entry_title = generate_source_title_from_url x, entry_url = x,
                question_context = q\<rparr>"
    have "map_of (cm @ [(x, ?e)]) u = (if u = x then Some ?e else map_of cm u)"
      using n by (auto simp: map_add_def split: option.splits)
    with False n show ?thesis
      using Cons.IH [of "cm @ [(x, ?e)]"] by (auto split: option.splits)
  qed
qed

lemma add_source_urls_distinct:
  "distinct (map fst cm) \<Longrightarrow> distinct (map fst (add_source_urls cm q urls))"
  by (induction urls arbitrary: cm) auto

lemma add_source_urls_keys:
  "fst ` set (add_source_urls cm q urls) = fst ` set cm \<union> set urls"
  by (induction urls arbitrary: cm) auto

lemma add_source_urls_known:
  "set urls \<subseteq> fst ` set cm \<Longrightarrow> add_source_urls cm q urls = cm"
  by (induction urls arbitrary: cm) auto

lemma build_citation_loop_lookup:
  "map_of (build_citation_loop cm answers) u =
     (case map_of cm u of
        Some e \<Rightarrow> Some e
      | None \<Rightarrow> map_option
          (\<lambda>q. \<lparr>entry_title = generate_source_title_from_url u, entry_url = u,
                  question_context = q\<rparr>)
          (first_origin answers u))"
proof (induction answers arbitrary: cm)
  case Nil
  show ?case by (simp split: option.splits)
next
  case (Cons qa answers)
  obtain q a where qa: "qa = (q, a)" by (cases qa)
  show ?case
    unfolding qa
    by (simp add: Cons.IH add_source_urls_lookup split: option.splits)
qed

lemma build_citation_loop_distinct:
  "distinct (map fst cm) \<Longrightarrow> distinct (map fst (build_citation_loop cm answers))"
proof (induction answers arbitrary: cm)
  case Nil
  then show ?case by simp
next
  case (Cons qa answers)
  obtain q a where qa: "qa = (q, a)" by (cases qa)
  from Cons.prems show ?case
    unfolding qa by (simp add: Cons.IH add_source_urls_distinct)
qed

lemma build_citation_loop_keys:
  "fst ` set (build_citation_loop cm answers)
     = fst ` set cm \<union> (\<Union>qa \<in> set answers. set (source_urls (snd qa)))"
proof (induction answers arbitrary: cm)
  case Nil
  show ?case by simp
next
  case (Cons qa answers)
  obtain q a where qa: "qa = (q, a)" by (cases qa)
  show ?case
    unfolding qa by (auto simp: Cons.IH add_source_urls_keys)
qed

lemma build_citation_loop_known:
  "(\<Union>qa \<in> set answers. set (source_urls (snd qa))) \<subseteq> fst ` set cm \<Longrightarrow>
   build_citation_loop cm answers = cm"
proof (induction answers arbitrary: cm)
  case Nil
  show ?case by simp
next
  case (Cons qa answers)
  obtain q a where qa: "qa = (q, a)" by (cases qa)
  from Cons.prems have 1: "set (source_urls a) \<subseteq> fst ` set cm"
    and 2: "(\<Union>qa \<in> set answers. set (source_urls (snd qa))) \<subseteq> fst ` set cm"
    unfolding qa by auto
  show ?case
    unfolding qa by (simp add: add_source_urls_known [OF 1] Cons.IH [OF 2])
qed

text \<open>
  C7: the citation map has one entry per URL; the entry of a URL carries the title
  derived from that URL alone and, as origin, the first answer in iteration order whose
  source URLs contain it, so the map is determined by the answers; and running the
  construction again over the same answers, starting from the map already built,
  leaves the map unchanged.
\<close>

theorem C7_citation_map:
  "distinct (map fst (build_source_citation_map answers))
   \<and> map_of (build_source_citation_map answers) u =
       map_option (\<lambda>q. \<lparr>entry_title = generate_source_title_from_url u, entry_url = u,
                          question_context = q\<rparr>)
                  (first_origin answers u)
   \<and> build_citation_loop (build_source_citation_map answers) answers
       = build_source_citation_map answers"
proof -
  have a: "distinct (map fst (build_source_citation_map answers))"
    unfolding build_source_citation_map_def by (rule build_citation_loop_distinct) simp
  have b: "map_of (build_source_citation_map answers) u =
       map_option (\<lambda>q. \<lparr>entry_title = generate_source_title_from_url u, entry_url = u,
                          question_context = q\<rparr>)
                  (first_origin answers u)"
    unfolding build_source_citation_map_def build_citation_loop_lookup by simp
  have c: "build_citation_loop (build_source_citation_map answers) answers
       = build_source_citation_map answers"
    by (rule build_citation_loop_known)
       (simp add: build_source_citation_map_def build_citation_loop_keys)
  from a b c show ?thesis by blast
qed

section \<open>Writer: fallback report\<close>

text \<open>
  C1: when the drafting step raises, the writer returns the fallback report: its
  metadata has citation count 0 and the fallback flag, and its markdown text is not
  empty. The function is total: no exception reaches the caller.
\<close>

theorem C1_fallback_report:
  assumes "draft env = Inl e"
  shows "generate_comprehensive_report env topic analysis
           = generate_fallback_report env topic analysis
       \<and> citation_count (metadata (generate_comprehensive_report env topic analysis)) = 0
       \<and> fallback_mode (metadata (generate_comprehensive_report env topic analysis))
       \<and> markdown_report (generate_comprehensive_report env topic analysis) \<noteq> []"
  using assms
  by (simp add: generate_comprehensive_report_def generate_fallback_report_def
      fallback_report_text_def Let_def)

theorem C1_fallback_report_witness:
  "draft (demo_writer_env (Inl ''timeout'')) = Inl ''timeout''
   \<and> citation_count (metadata
        (generate_comprehensive_report (demo_writer_env (Inl ''timeout'')) ''AI''
           demo_analysis)) = 0
   \<and> markdown_report
        (generate_comprehensive_report (demo_writer_env (Inl ''timeout'')) ''AI''
           demo_analysis) \<noteq> []"
proof -
  have h: "draft (demo_writer_env (Inl ''timeout'')) = Inl ''timeout''"
    by (simp add: demo_writer_env_def)
  from C1_fallback_report [OF h, of "''AI''" demo_analysis] h
  show ?thesis by blast
qed

section \<open>Orchestrator: failure of a phase\<close>

text \<open>
  C5: when a phase raises, no later phase is started; the result is a failure that
  carries the message of the raised error and the context with the original query and
  the outputs of exactly the phases that completed; it has no markdown report, and
  the context has no report either. The function always returns a result.
\<close>

theorem C5_phase_failure:
  "(planner env q n = Inl e \<longrightarrow>
      snd (comprehensive_research env q n) = [Planning]
      \<and> success (fst (comprehensive_research env q n)) = False
      \<and> error (fst (comprehensive_research env q n)) = Some e
      \<and> ctx_user_query (result_context (fst (comprehensive_research env q n))) = q
      \<and> ctx_sub_questions (result_context (fst (comprehensive_research env q n))) = None
      \<and> ctx_sources_data (result_context (fst (comprehensive_research env q n))) = None
      \<and> ctx_analysis_results (result_context (fst (comprehensive_research env q n))) = None
      \<and> ctx_report_results (result_context (fst (comprehensive_research env q n))) = None
      \<and> result_markdown_report (fst (comprehensive_research env q n)) = None)
   \<and> (planner env q n = Inr sq \<and> scout env sq = Inl e \<longrightarrow>
      snd (comprehensive_research env q n) = [Planning, Scouting]
      \<and> success (fst (comprehensive_research env q n)) = False
      \<and> error (fst (comprehensive_research env q n)) = Some e
      \<and> ctx_user_query (result_context (fst (comprehensive_research env q n))) = q
      \<and> ctx_sub_questions (result_context (fst (comprehensive_research env q n))) = Some sq
      \<and> ctx_sources_data (result_context (fst (comprehensive_research env q n))) = None
      \<and> ctx_analysis_results (result_context (fst (comprehensive_research env q n))) = None
      \<and> ctx_report_results (result_context (fst (comprehensive_research env q n))) = None
      \<and> result_markdown_report (fst (comprehensive_research env q n)) = None)
   \<and> (planner env q n = Inr sq \<and> scout env sq = Inr sd \<and> analyst env sd = Inl e \<longrightarrow>
      snd (comprehensive_research env q n) = [Planning, Scouting, Analyzing]
      \<and> success (fst (comprehensive_research env q n)) = False
      \<and> error (fst (comprehensive_research env q n)) = Some e
      \<and> ctx_user_query (result_context (fst (comprehensive_research env q n))) = q
      \<and> ctx_sub_questions (result_context (fst (comprehensive_research env q n))) = Some sq
      \<and> ctx_sources_data (result_context (fst (comprehensive_research env q n))) = Some sd
      \<and> ctx_analysis_results (result_context (fst (comprehensive_research env q n))) = None
      \<and> ctx_report_results (result_context (fst (comprehensive_research env q n))) = None
      \<and> result_markdown_report (fst (comprehensive_research env q n)) = None)
   \<and> (planner env q n = Inr sq \<and> scout env sq = Inr sd \<and> analyst env sd = Inr an
        \<and> writer env q an = Inl e \<longrightarrow>
      snd (comprehensive_research env q n) = [Planning, Scouting, Analyzing, Writing]
      \<and> success (fst (comprehensive_research env q n)) = False
      \<and> error (fst (comprehensive_research env q n)) = Some e
      \<and> ctx_user_query (result_context (fst (comprehensive_research env q n))) = q
      \<and> ctx_sub_questions (result_context (fst (comprehensive_research env q n))) = Some sq
      \<and> ctx_sources_data (result_context (fst (comprehensive_research env q n))) = Some sd
      \<and> ctx_analysis_results (result_context (fst (comprehensive_research env q n))) = Some an
      \<and> ctx_report_results (result_context (fst (comprehensive_research env q n))) = None
      \<and> result_markdown_report (fst (comprehensive_research env q n)) = None)
   \<and> (\<not> success (fst (comprehensive_research env q n)) \<longrightarrow>
        error (fst (comprehensive_research env q n)) \<noteq> None
        \<and> result_markdown_report (fst (comprehensive_research env q n)) = None
        \<and> ctx_report_results (result_context (fst (comprehensive_research env q n))) = None
        \<and> ctx_user_query (result_context (fst (comprehensive_research env q n))) = q)"
proof -
  have p1: "planner env q n = Inl e \<Longrightarrow>
      comprehensive_research env q n = (failure_result e (initial_context env q), [Planning])"
    by (simp add: comprehensive_research_def Let_def)
  have p2: "planner env q n = Inr sq \<Longrightarrow> scout env sq = Inl e \<Longrightarrow>
      comprehensive_research env q n
        = (failure_result e ((initial_context env q)\<lparr>ctx_sub_questions := Some sq\<rparr>),
           [Planning, Scouting])"
    by (simp add: comprehensive_research_def Let_def)
  have p3: "planner env q n = Inr sq \<Longrightarrow> scout env sq = Inr sd \<Longrightarrow>
      analyst env sd = Inl e \<Longrightarrow>
      comprehensive_research env q n
        = (failure_result e ((initial_context env q)
             \<lparr>ctx_sub_questions := Some sq, ctx_sources_data := Some sd\<rparr>),
           [Planning, Scouting, Analyzing])"
    by (simp add: comprehensive_research_def Let_def)
  have p4: "planner env q n = Inr sq \<Longrightarrow> scout env sq = Inr sd \<Longrightarrow>
      analyst env sd = Inr an \<Longrightarrow> writer env q an = Inl e \<Longrightarrow>
      comprehensive_research env q n
        = (failure_result e ((initial_context env q)
             \<lparr>ctx_sub_questions := Some sq, ctx_sources_data := Some sd,
              ctx_analysis_results := Some an\<rparr>),
           [Planning, Scouting, Analyzing, Writing])"
    by (simp add: comprehensive_research_def Let_def)
  have g: "\<not> success (fst (comprehensive_research env q n)) \<longrightarrow>
        error (fst (comprehensive_research env q n)) \<noteq> None
        \<and> result_markdown_report (fst (comprehensive_research env q n)) = None
        \<and> ctx_report_results (result_context (fst (comprehensive_research env q n))) = None
        \<and> ctx_user_query (result_context (fst (comprehensive_research env q n))) = q"
    by (auto simp: comprehensive_research_def failure_result_def initial_context_def Let_def
        split: sum.splits)
  show ?thesis
    using p1 p2 p3 p4 g
    by (auto simp: failure_result_def initial_context_def)
qed

theorem C5_phase_failure_witness:
  "snd (comprehensive_research demo_pipeline ''AI'' 2) = [Planning, Scouting, Analyzing]
   \<and> success (fst (comprehensive_research demo_pipeline ''AI'' 2)) = False
   \<and> error (fst (comprehensive_research demo_pipeline ''AI'' 2)) = Some ''analysis exploded''
   \<and> ctx_user_query (result_context (fst (comprehensive_research demo_pipeline ''AI'' 2)))
       = ''AI''
   \<and> ctx_sub_questions (result_context (fst (comprehensive_research demo_pipeline ''AI'' 2)))
       = Some (fallback_decomposition ''AI'' 2)
   \<and> ctx_sources_data (result_context (fst (comprehensive_research demo_pipeline ''AI'' 2)))
       = Some (fst (deep_search_all_questions demo_api demo_fetch (fault_at 0)
                 (fallback_decomposition ''AI'' 2)))
   \<and> ctx_analysis_results (result_context (fst (comprehensive_research demo_pipeline ''AI'' 2)))
       = None
   \<and> result_markdown_report (fst (comprehensive_research demo_pipeline ''AI'' 2)) = None"
proof -
  let ?sq = "fallback_decomposition ''AI'' 2"
  let ?sd = "fst (deep_search_all_questions demo_api demo_fetch (fault_at 0) ?sq)"
  have h: "planner demo_pipeline ''AI'' 2 = Inr ?sq \<and> scout demo_pipeline ?sq = Inr ?sd
         \<and> analyst demo_pipeline ?sd = Inl ''analysis exploded''"
    by (simp add: demo_pipeline_def)
  from C5_phase_failure [of demo_pipeline "''AI''" 2 "''analysis exploded''" ?sq ?sd] h
  show ?thesis
    by blast
qed

section \<open>Collaboration: cross-references\<close>



lemma agent_pairs_distinct:
  "distinct (map fst xs) \<Longrightarrow> (a, b) \<in> set (agent_pairs xs) \<Longrightarrow>
   fst a \<noteq> fst b \<and> a \<in> set xs \<and> b \<in> set xs"
  by (induction xs) auto

lemma agent_pairs_complete:
  "i < j \<Longrightarrow> j < length xs \<Longrightarrow> (xs ! i, xs ! j) \<in> set (agent_pairs xs)"
proof (induction xs arbitrary: i j)
  case Nil
  then show ?case by simp
next
  case (Cons x xs)
  show ?case
  proof (cases i)
    case 0
    with Cons.prems show ?thesis by (cases j) auto
  next
    case (Suc i')
    with Cons.prems obtain j' where j: "j = Suc j'" by (cases j) auto
    with Suc Cons.prems have "i' < j'" "j' < length xs" by simp_all
    from Cons.IH [OF this] Suc j show ?thesis by simp
  qed
qed

lemma insight_matches_sound:
  "r \<in> set (insight_matches a b) \<Longrightarrow>
     agent1 r = fst a \<and> agent2 r = fst b
     \<and> insight1 r \<in> set (key_insights (snd a)) \<and> insight2 r \<in> set (key_insights (snd b))
     \<and> similarity r = calculate_text_similarity (insight1 r) (insight2 r)
     \<and> 0.3 < similarity r"
  by (auto simp: insight_matches_def Let_def split: if_splits)

lemma insight_matches_complete:
  "i1 \<in> set (key_insights (snd a)) \<Longrightarrow> i2 \<in> set (key_insights (snd b)) \<Longrightarrow>
   0.3 < calculate_text_similarity i1 i2 \<Longrightarrow>
   \<lparr>agent1 = fst a, agent2 = fst b, insight1 = i1, insight2 = i2,
     similarity = calculate_text_similarity i1 i2\<rparr> \<in> set (insight_matches a b)"
  by (force simp: insight_matches_def Let_def)

lemma all_cross_references_sound:
  assumes "distinct (map fst results)" "r \<in> set (all_cross_references results)"
  shows "agent1 r \<noteq> agent2 r
     \<and> (\<exists>res1 res2. (agent1 r, res1) \<in> set results \<and> (agent2 r, res2) \<in> set results
          \<and> insight1 r \<in> set (key_insights res1) \<and> insight2 r \<in> set (key_insights res2))
     \<and> similarity r = calculate_text_similarity (insight1 r) (insight2 r)
     \<and> 0.3 < similarity r"
proof -
  from assms(2) obtain a b where ab: "(a, b) \<in> set (agent_pairs results)"
    and r: "r \<in> set (insight_matches a b)"
    by (auto simp: all_cross_references_def)
  obtain k1 v1 k2 v2 where a: "a = (k1, v1)" and b: "b = (k2, v2)"
    by (cases a, cases b) auto
  from agent_pairs_distinct [OF assms(1) ab] insight_matches_sound [OF r]
  show ?thesis
    unfolding a b by auto
qed

lemma in_concat_map:
  "x \<in> set xs \<Longrightarrow> y \<in> set (f x) \<Longrightarrow> y \<in> set (concat (map f xs))"
  by auto

lemma all_cross_references_complete:
  assumes "i < j" "j < length results"
    "i1 \<in> set (key_insights (snd (results ! i)))"
    "i2 \<in> set (key_insights (snd (results ! j)))"
    "0.3 < calculate_text_similarity i1 i2"
  shows "\<lparr>agent1 = fst (results ! i), agent2 = fst (results ! j), insight1 = i1,
           insight2 = i2, similarity = calculate_text_similarity i1 i2\<rparr>
         \<in> set (all_cross_references results)"
proof -
  let ?r = "\<lparr>agent1 = fst (results ! i), agent2 = fst (results ! j), insight1 = i1,
             insight2 = i2, similarity = calculate_text_similarity i1 i2\<rparr>"
  have p: "(results ! i, results ! j) \<in> set (agent_pairs results)"
    using assms(1,2) by (rule agent_pairs_complete)
  have "?r \<in> set (insight_matches (results ! i) (results ! j))"
    using assms(3,4,5) by (rule insight_matches_complete)
  then have m: "?r \<in> set ((\<lambda>(a, b). insight_matches a b) (results ! i, results ! j))"
    by simp
  show ?thesis
    unfolding all_cross_references_def
    using p m by (rule in_concat_map)
qed




end
